theory Spec2Isabelle
  imports Complex_Main "HOL-Library.Multiset"
begin

section \<open>The analyzer script of blackmamba (blackmamba/script/analyze.py)\<close>

text \<open>
  The script runs pep8 and pyflakes, or flake8, on the file open in the editor, parses
  their reports into annotation records, and asks the host editor for one annotation per
  source line. The linters, the editor, the configuration and the log are outside the
  script: the model takes what they return as parameters and records every call to
  them as an event.

  Strings are \<^typ>\<open>string\<close>, one \<^typ>\<open>char\<close> for each code point below 256, so that
  \<open>len\<close> is \<^const>\<open>length\<close> and a slice is \<^const>\<open>drop\<close>. Python integers are
  \<^typ>\<open>int\<close>.
\<close>

subsection \<open>The annotation record\<close>

text \<open>\<open>class _Source(Enum)\<close>.\<close>

datatype Source = pep8 | pyflakes | flake8

text \<open>
  \<open>Style\<close> and \<open>Annotation\<close> are imported from \<open>blackmamba.ide.annotation\<close>, whose
  file is not among the sources of the script.
  Modelled from the spec: the declaration of \<open>Style\<close> is missing; the severities of the
  data model are \<open>warning\<close> and \<open>error\<close>. The third member, \<open>success\<close>, is the
  remaining annotation style of the host editor; the script never names it, and keeping
  it in the type makes "the severity is warning or error" a property of the parsers
  instead of a property of the type.
  Modelled from the spec: the declaration of \<open>Annotation\<close> is missing; its constructor
  receives the source line, the display text and the style, which the script reads back
  as \<open>x.line\<close>, \<open>a.text\<close> and \<open>a.style\<close>.
\<close>

datatype Style = success | warning | error

text \<open>\<open>class _AnalyzerAnnotation(Annotation)\<close>: the three fields of the base class and \<open>source\<close>.\<close>

record AnalyzerAnnotation =
  line :: int
  "text" :: string
  style :: Style
  source :: Source

text \<open>\<open>_AnalyzerAnnotation.__init__(self, line, text, source, style)\<close>.\<close>

definition AnalyzerAnnotation_init :: "int \<Rightarrow> string \<Rightarrow> Source \<Rightarrow> Style \<Rightarrow> AnalyzerAnnotation" where
  "AnalyzerAnnotation_init l t src sty = \<lparr>line = l, text = t, style = sty, source = src\<rparr>"

text \<open>\<open>_AnalyzerAnnotation.__lt__(self, other)\<close>, the three tests in the order of the code.\<close>

definition AnalyzerAnnotation_lt :: "AnalyzerAnnotation \<Rightarrow> AnalyzerAnnotation \<Rightarrow> bool" where
  "AnalyzerAnnotation_lt self other =
     (if source self = pep8 \<and> source other = pyflakes then True
      else if source self = flake8 \<and> source other \<noteq> flake8 then True
      else if style self = warning \<and> style other = error then True
      else False)"

subsection \<open>Exceptions\<close>

text \<open>
  What the script can raise or catch. \<open>ValueError\<close> is what \<open>int\<close> raises and
  \<open>IndexError\<close> what \<open>by_priority[0]\<close> raises; \<open>Exception m\<close> is any other instance of
  the class \<open>Exception\<close> coming from a linter or from the file system, with \<open>str(e) = m\<close>;
  \<open>SystemExit m\<close> stands for an exception that is not an instance of \<open>Exception\<close>
  (\<open>SystemExit\<close>, \<open>KeyboardInterrupt\<close>), which \<open>except Exception\<close> lets through.
\<close>

datatype exc = ValueError string | IndexError string | Exception string | SystemExit string

fun isinstance_Exception :: "exc \<Rightarrow> bool" where
  "isinstance_Exception (ValueError m) = True"
| "isinstance_Exception (IndexError m) = True"
| "isinstance_Exception (Exception m) = True"
| "isinstance_Exception (SystemExit m) = False"

fun str_exc :: "exc \<Rightarrow> string" where
  "str_exc (ValueError m) = m"
| "str_exc (IndexError m) = m"
| "str_exc (Exception m) = m"
| "str_exc (SystemExit m) = m"

subsection \<open>The string methods the script calls\<close>

text \<open>\<open>s.startswith(p)\<close> and \<open>s.endswith(p)\<close>.\<close>

definition startswith :: "string \<Rightarrow> string \<Rightarrow> bool" where
  "startswith s p = (take (length p) s = p)"

definition endswith :: "string \<Rightarrow> string \<Rightarrow> bool" where
  "endswith s p = (length p \<le> length s \<and> drop (length s - length p) s = p)"

text \<open>
  \<open>s.splitlines(keepends)\<close>. The line boundaries of \<open>str.splitlines\<close> below code point 256
  are \<open>\n\<close>, \<open>\v\<close>, \<open>\f\<close>, \<open>\r\<close>, \<open>\x1c\<close>, \<open>\x1d\<close>, \<open>\x1e\<close> and \<open>\x85\<close>; \<open>\r\n\<close> is one
  boundary. \<open>cur\<close> is the line read so far; a last line without a boundary is kept when
  it is not empty.
\<close>

definition line_boundary :: "char \<Rightarrow> bool" where
  "line_boundary c = (c \<in> set [CHR 0x0A, CHR 0x0B, CHR 0x0C, CHR 0x0D, CHR 0x1C, CHR 0x1D, CHR 0x1E, CHR 0x85])"

fun splitlines_from :: "bool \<Rightarrow> string \<Rightarrow> string \<Rightarrow> string list" where
  "splitlines_from keepends cur [] = (if cur = [] then [] else [cur])"
| "splitlines_from keepends cur (c # cs) =
     (if c = CHR 0x0D \<and> cs \<noteq> [] \<and> hd cs = CHR 0x0A
      then (if keepends then cur @ [c, hd cs] else cur) # splitlines_from keepends [] (tl cs)
      else if line_boundary c
      then (if keepends then cur @ [c] else cur) # splitlines_from keepends [] cs
      else splitlines_from keepends (cur @ [c]) cs)"

definition splitlines :: "string \<Rightarrow> string list" where
  "splitlines s = splitlines_from False [] s"

text \<open>
  \<open>int(s)\<close> on what the regular expressions hand over. The characters that \<open>\d\<close> matches
  below code point 256 are \<open>0\<close> to \<open>9\<close>. \<open>int\<close> accepts more than digit strings (a sign,
  surrounding blanks, underscores); the model raises on all of those, so that a proof of
  "\<open>int\<close> does not raise" covers less input than Python would accept, never more.
  Integers are unbounded, as in the Python the script was written for; the limit on the
  number of digits that later versions of \<open>int\<close> have is not part of the model.
\<close>

definition isdigit :: "char \<Rightarrow> bool" where
  "isdigit c = (c \<in> set ''0123456789'')"

definition decimal :: "string \<Rightarrow> int" where
  "decimal s = foldl (\<lambda>n c. 10 * n + (int (of_char c) - 48)) 0 s"

definition py_int :: "string \<Rightarrow> exc + int" where
  "py_int s =
     (if s \<noteq> [] \<and> list_all isdigit s then Inr (decimal s)
      else Inl (ValueError (''invalid literal for int() with base 10: '' @
                              [CHR 0x27] @ s @ [CHR 0x27])))"

subsection \<open>The two regular expressions\<close>

text \<open>
  \<open>_LINE_COL_MESSAGE_REGEX = re.compile(r'^(\d+):(\d+): (.*)$')\<close> and
  \<open>_LINE_MESSAGE_REGEX = re.compile(r'^(\d+): (.*)$')\<close>, both used through \<open>fullmatch\<close>.
  A match object is the list of its groups: \<open>match.group(i)\<close> is \<open>groups ! (i - 1)\<close> and
  \<open>match.lastindex\<close> is \<open>length groups\<close>.

  \<open>(\d+)\<close> is followed by a colon in both expressions, so the only split that can match
  is the longest run of digits (\<open>match_digits\<close>). \<open>(.*)$\<close> under \<open>fullmatch\<close> takes the
  rest of the string, and matches when the rest has no \<open>\n\<close> (\<open>match_rest\<close>).
\<close>

definition match_digits :: "string \<Rightarrow> (string \<times> string) option" where
  "match_digits s =
     (if takeWhile isdigit s = [] then None
      else Some (takeWhile isdigit s, dropWhile isdigit s))"

definition match_rest :: "string \<Rightarrow> string option" where
  "match_rest s = (if CHR 0x0A \<in> set s then None else Some s)"

definition LINE_COL_MESSAGE_REGEX_fullmatch :: "string \<Rightarrow> string list option" where
  "LINE_COL_MESSAGE_REGEX_fullmatch s =
     (case match_digits s of
        None \<Rightarrow> None
      | Some (g1, r1) \<Rightarrow>
         if \<not> startswith r1 '':'' then None
         else (case match_digits (drop 1 r1) of
                 None \<Rightarrow> None
               | Some (g2, r2) \<Rightarrow>
                  if \<not> startswith r2 '': '' then None
                  else (case match_rest (drop 2 r2) of
                          None \<Rightarrow> None
                        | Some g3 \<Rightarrow> Some [g1, g2, g3])))"

definition LINE_MESSAGE_REGEX_fullmatch :: "string \<Rightarrow> string list option" where
  "LINE_MESSAGE_REGEX_fullmatch s =
     (case match_digits s of
        None \<Rightarrow> None
      | Some (g1, r1) \<Rightarrow>
         if \<not> startswith r1 '': '' then None
         else (case match_rest (drop 2 r1) of
                 None \<Rightarrow> None
               | Some g2 \<Rightarrow> Some [g1, g2]))"

subsection \<open>pyflakes: \<open>_get_annotations\<close>\<close>

text \<open>
  The loop of \<open>_get_annotations(path, stream, style)\<close> over the lines of the stream, with
  the list \<open>annotations\<close> it appends to. A \<open>continue\<close> is the recursive call with the list
  unchanged; an exception of \<open>int\<close> ends the loop with \<open>Inl\<close>.
\<close>

fun get_annotations_loop ::
  "string \<Rightarrow> Style \<Rightarrow> string list \<Rightarrow> AnalyzerAnnotation list \<Rightarrow> exc + AnalyzerAnnotation list" where
  "get_annotations_loop path sty [] annotations = Inr annotations"
| "get_annotations_loop path sty (l # ls) annotations =
     (if \<not> startswith l path then get_annotations_loop path sty ls annotations
      else
        let l' = drop (length path + 1) l;
            match = (case LINE_COL_MESSAGE_REGEX_fullmatch l' of
                       Some m \<Rightarrow> Some m
                     | None \<Rightarrow> LINE_MESSAGE_REGEX_fullmatch l')
        in case match of
             None \<Rightarrow> get_annotations_loop path sty ls annotations
           | Some groups \<Rightarrow>
              (case py_int (groups ! 0) of
                 Inl e \<Rightarrow> Inl e
               | Inr n \<Rightarrow>
                  let annotation =
                    (if length groups = 3
                     then AnalyzerAnnotation_init n (''Col '' @ groups ! 1 @ '': '' @ groups ! 2) pyflakes sty
                     else AnalyzerAnnotation_init n (groups ! 1) pyflakes sty)
                  in get_annotations_loop path sty ls (annotations @ [annotation])))"

text \<open>\<open>_get_annotations(path, stream, style)\<close>; \<open>stream\<close> is \<open>stream.getvalue()\<close>.\<close>

definition get_annotations :: "string \<Rightarrow> string \<Rightarrow> Style \<Rightarrow> exc + AnalyzerAnnotation list" where
  "get_annotations path stream sty = get_annotations_loop path sty (splitlines stream) []"

subsection \<open>flake8: \<open>_parse_flake8_output\<close>\<close>

text \<open>The local function \<open>get_style(message)\<close>.\<close>

definition get_style :: "string \<Rightarrow> Style" where
  "get_style message = (if startswith message ''W'' then warning else error)"

text \<open>The loop of \<open>_parse_flake8_output(path, output_path)\<close> over the lines of the report.\<close>

fun parse_flake8_output_loop ::
  "string \<Rightarrow> string list \<Rightarrow> AnalyzerAnnotation list \<Rightarrow> exc + AnalyzerAnnotation list" where
  "parse_flake8_output_loop path [] annotations = Inr annotations"
| "parse_flake8_output_loop path (l # ls) annotations =
     (if \<not> startswith l path then parse_flake8_output_loop path ls annotations
      else
        let l' = drop (length path + 1) l;
            match = (case LINE_COL_MESSAGE_REGEX_fullmatch l' of
                       Some m \<Rightarrow> Some m
                     | None \<Rightarrow> LINE_MESSAGE_REGEX_fullmatch l')
        in case match of
             None \<Rightarrow> parse_flake8_output_loop path ls annotations
           | Some groups \<Rightarrow>
              (case py_int (groups ! 0) of
                 Inl e \<Rightarrow> Inl e
               | Inr n \<Rightarrow>
                  let annotation =
                    (if length groups = 3
                     then AnalyzerAnnotation_init n (''Col '' @ groups ! 1 @ '': '' @ groups ! 2)
                            flake8 (get_style (groups ! 2))
                     else AnalyzerAnnotation_init n (groups ! 1) flake8 (get_style (groups ! 1)))
                  in parse_flake8_output_loop path ls (annotations @ [annotation])))"

text \<open>
  \<open>_parse_flake8_output(path, output_path)\<close>. The file at \<open>output_path\<close> is the parameter
  \<open>output\<close>: \<open>None\<close> when there is no such file, so that \<open>open\<close> raises
  \<open>FileNotFoundError\<close>, an instance of \<open>Exception\<close>, and \<open>Some report\<close> when
  \<open>output.read()\<close> returns \<open>report\<close>.
\<close>

definition parse_flake8_output ::
  "string \<Rightarrow> string \<Rightarrow> string option \<Rightarrow> exc + AnalyzerAnnotation list" where
  "parse_flake8_output path output_path output =
     (case output of
        None \<Rightarrow> Inl (Exception (''[Errno 2] No such file or directory: '' @
                                 [CHR 0x27] @ output_path @ [CHR 0x27]))
      | Some report \<Rightarrow> parse_flake8_output_loop path (splitlines report) [])"

text \<open>
  The two tests of the loop body that let a line through to the record: the line starts
  with the path, and what follows the path and one more character matches one of the two
  expressions. Used to state which lines the parsers skip.
\<close>

definition accepted :: "string \<Rightarrow> string \<Rightarrow> bool" where
  "accepted path l \<longleftrightarrow>
     startswith l path \<and>
     (LINE_COL_MESSAGE_REGEX_fullmatch (drop (length path + 1) l) \<noteq> None \<or>
      LINE_MESSAGE_REGEX_fullmatch (drop (length path + 1) l) \<noteq> None)"


subsection \<open>The host and the linters\<close>

text \<open>
  The calls that leave the script, in the order they are made. Reads of the editor and of
  the configuration change nothing and are fields of the \<open>world\<close> below; every other
  call is an event: \<open>editor.clear_annotations()\<close>, \<open>editor.replace_text\<close>, \<open>tab.save()\<close>,
  a run of flake8 with its argument list, the pep8 check with its lines and the two
  options the script sets, \<open>pyflakes.check(text, path, reporter)\<close>, \<open>log.error\<close>,
  \<open>editor.annotate_line(line, text, style, True, scroll=scroll)\<close>,
  \<open>editor.set_selection(start, scroll=True)\<close> and \<open>console.hud_alert\<close>.
  \<open>AnnotateLine\<close> carries the member of \<open>Style\<close> for its \<open>.value\<close>.
\<close>

datatype event =
    ClearAnnotations
  | ReplaceText nat nat string
  | TabSave
  | Flake8Run "string list"
  | Pep8Check "string list" "string list" "int option"
  | PyflakesCheck string string
  | LogError string
  | AnnotateLine int string Style bool bool
  | SetSelection nat bool
  | HudAlert string string real

text \<open>The linter an event invokes, if it invokes one; whether an event places an annotation.\<close>

fun linter_of :: "event \<Rightarrow> Source option" where
  "linter_of (Flake8Run argv) = Some flake8"
| "linter_of (Pep8Check ls ignore max_line_length) = Some pep8"
| "linter_of (PyflakesCheck txt path) = Some pyflakes"
| "linter_of e = None"

fun is_AnnotateLine :: "event \<Rightarrow> bool" where
  "is_AnnotateLine (AnnotateLine l txt sty flag scroll) = True"
| "is_AnnotateLine e = False"

text \<open>The linters that a sequence of events invokes.\<close>

definition linters_run :: "event list \<Rightarrow> Source set" where
  "linters_run es = set (List.map_filter linter_of es)"

text \<open>
  A computation of the script: the events it has caused, and the value it returns or the
  exception that ended it. \<open>then_eff\<close> is sequencing: an exception ends the sequence
  with the events so far.
\<close>

type_synonym 'a eff = "event list \<times> (exc + 'a)"

definition then_eff :: "'a eff \<Rightarrow> ('a \<Rightarrow> 'b eff) \<Rightarrow> 'b eff" where
  "then_eff m f =
     (case m of
        (es, Inl e) \<Rightarrow> (es, Inl e)
      | (es, Inr a) \<Rightarrow> (case f a of (es', r) \<Rightarrow> (es @ es', r)))"

text \<open>
  One call of \<open>_Pep8AnnotationReport.error(self, line_number, offset, text, check)\<close> by the
  pep8 checker, with the report's \<open>line_offset\<close> at the time of the call and what
  \<open>super().error(line_number, offset, text, check)\<close> returns for it: the code, or \<open>None\<close>.
\<close>

record pep8_error_call =
  line_offset :: int
  line_number :: int
  offset :: int
  error_text :: string
  check :: string
  super_error :: "string option"

text \<open>
  What one run of \<open>main\<close> finds outside the script.
  \<^item> \<open>get_path\<close>, \<open>get_text\<close>, \<open>get_selection\<close>: what the editor returns.
  \<^item> \<open>config_\<dots>\<close>: what \<open>get_config_value\<close> returns for \<open>analyzer.flake8\<close> (default \<open>None\<close>),
    \<open>analyzer.ignore_codes\<close>, \<open>analyzer.max_line_length\<close>, \<open>analyzer.remove_whitespaces\<close>
    and \<open>analyzer.hud_alert_delay\<close>.
  \<^item> \<open>abspath\<close>: \<open>os.path.abspath\<close>. \<open>output_file\<close>: the value of \<open>_output_file\<close>, that is
    \<open>os.path.join(_tmp, 'blackmamba.flake8.txt')\<close>.
  \<^item> \<open>flake8_run argv\<close>: the statements of the \<open>try\<close> block from the import of
    \<open>flake8.main.application\<close> to \<open>del app\<close>, for the argument list \<open>argv\<close>: \<open>Inl e\<close> when
    one of them raises \<open>e\<close>, and otherwise \<open>Inr\<close> of the output file as flake8 leaves it
    (the block removes an older file first).
  \<^item> \<open>pep8_check_all lines ignore max_line_length\<close>: the calls of \<open>error\<close> that
    \<open>checker.check_all()\<close> makes on the report; \<open>max_line_length = None\<close> when the script
    leaves the option of pep8 as it is.
  \<^item> \<open>pyflakes_check text path\<close>: what \<open>pyflakes.check(text, path, reporter)\<close> writes to the
    warning stream and to the error stream.
  The pep8 and pyflakes libraries are taken to return; the script has no handler around
  them.
\<close>

record world =
  get_path :: "string option"
  get_text :: string
  get_selection :: "(nat \<times> nat) option"
  config_flake8 :: "string list list option"
  config_ignore_codes :: "string list"
  config_max_line_length :: int
  config_remove_whitespaces :: bool
  config_hud_alert_delay :: real
  abspath :: "string \<Rightarrow> string"
  output_file :: string
  flake8_run :: "string list \<Rightarrow> exc + string option"
  pep8_check_all :: "string list \<Rightarrow> string list \<Rightarrow> int option \<Rightarrow> pep8_error_call list"
  pyflakes_check :: "string \<Rightarrow> string \<Rightarrow> string \<times> string"

subsection \<open>pep8: \<open>_pep8_annotations\<close>\<close>

text \<open>
  \<open>_Pep8AnnotationReport.error\<close>, on the list \<open>self.annotations\<close>. \<open>not super().error(\<dots>)\<close>
  holds for \<open>None\<close> and for the empty string.
\<close>

definition Pep8AnnotationReport_error ::
  "AnalyzerAnnotation list \<Rightarrow> pep8_error_call \<Rightarrow> AnalyzerAnnotation list" where
  "Pep8AnnotationReport_error annotations c =
     (case super_error c of
        None \<Rightarrow> annotations
      | Some code \<Rightarrow>
         if code = [] then annotations
         else annotations @
                [AnalyzerAnnotation_init (line_offset c + line_number c) (error_text c) pep8 warning])"

text \<open>
  \<open>_pep8_annotations(text, ignore, max_line_length)\<close>: the lines with their ends, the two
  options, the check, and the annotations the report has collected.
\<close>

definition pep8_annotations ::
  "world \<Rightarrow> string \<Rightarrow> string list \<Rightarrow> int \<Rightarrow> AnalyzerAnnotation list eff" where
  "pep8_annotations w txt ignore max_line_length =
     (let lines = splitlines_from True [] txt;
          options_ignore = (if ignore \<noteq> [] then ignore else []);
          options_max_line_length = (if max_line_length \<noteq> 0 then Some max_line_length else None)
      in ([Pep8Check lines options_ignore options_max_line_length],
          Inr (foldl Pep8AnnotationReport_error []
                 (pep8_check_all w lines options_ignore options_max_line_length))))"

subsection \<open>pyflakes: \<open>_pyflakes_annotations\<close>\<close>

definition pyflakes_annotations :: "world \<Rightarrow> string \<Rightarrow> string \<Rightarrow> AnalyzerAnnotation list eff" where
  "pyflakes_annotations w path txt =
     (case pyflakes_check w txt path of
        (warning_stream, error_stream) \<Rightarrow>
          ([PyflakesCheck txt path],
           case get_annotations path warning_stream warning of
             Inl e \<Rightarrow> Inl e
           | Inr warnings \<Rightarrow>
              (case get_annotations path error_stream error of
                 Inl e \<Rightarrow> Inl e
               | Inr errors \<Rightarrow> Inr (warnings @ errors))))"

subsection \<open>flake8: \<open>_flake8_annotations\<close>\<close>

text \<open>
  The argument list of one run (\<open>o = list(o); o.insert(0, path); o.extend([\<dots>])\<close>) and the
  body of the \<open>try\<close> statement: the run of flake8, then \<open>_parse_flake8_output\<close> on the
  output file.
\<close>

definition flake8_argv :: "world \<Rightarrow> string \<Rightarrow> string list \<Rightarrow> string list" where
  "flake8_argv w path opt = path # opt @ [''-j'', ''0'', ''--output-file='' @ output_file w]"

definition flake8_try :: "world \<Rightarrow> string \<Rightarrow> string list \<Rightarrow> exc + AnalyzerAnnotation list" where
  "flake8_try w path opt =
     (case flake8_run w (flake8_argv w path opt) of
        Inl e \<Rightarrow> Inl e
      | Inr output \<Rightarrow> parse_flake8_output path (output_file w) output)"

text \<open>
  The loop \<open>for o in options\<close> with its \<open>try\<close> and \<open>except Exception as e\<close>: an instance of
  \<open>Exception\<close> is logged and the loop goes on; any other exception leaves the function.
  The removal of the output file after the loop is left to the file system.
\<close>

fun flake8_annotations_loop ::
  "world \<Rightarrow> string \<Rightarrow> string list list \<Rightarrow> AnalyzerAnnotation list \<Rightarrow> AnalyzerAnnotation list eff" where
  "flake8_annotations_loop w path [] annotations = ([], Inr annotations)"
| "flake8_annotations_loop w path (opt # options) annotations =
     (case flake8_try w path opt of
        Inr parsed \<Rightarrow>
          then_eff ([Flake8Run (flake8_argv w path opt)], Inr ())
            (\<lambda>_. flake8_annotations_loop w path options (annotations @ parsed))
      | Inl e \<Rightarrow>
          if isinstance_Exception e
          then then_eff ([Flake8Run (flake8_argv w path opt),
                          LogError (''flake8 failed: '' @ str_exc e)], Inr ())
                 (\<lambda>_. flake8_annotations_loop w path options annotations)
          else ([Flake8Run (flake8_argv w path opt)], Inl e))"

definition flake8_annotations :: "world \<Rightarrow> string \<Rightarrow> string list list \<Rightarrow> AnalyzerAnnotation list eff" where
  "flake8_annotations w path options = flake8_annotations_loop w path options []"

subsection \<open>\<open>sorted\<close>, \<open>groupby\<close> and \<open>join\<close>\<close>

text \<open>
  \<open>sorted(iterable, reverse=\<dots>)\<close> is the sort of Python lists: it compares with \<open><\<close> only,
  it is stable, and with \<open>reverse=True\<close> it sorts the reversed list and reverses the
  result. The model is the insertion sort with these three properties: an element goes
  in front of the first element it is less than. When \<open><\<close> is the order of a key on the
  elements, the result is the stable sort by that key (\<open>py_sorted_is_stable_sort\<close> below),
  which is what every stable sort returns; \<open>__lt__\<close> is such an order on the records of a
  run of \<open>main\<close> (\<open>lt_is_order_of_key\<close>). \<open>sorted(iterable, key=f)\<close> compares
  \<open>f x < f y\<close>.
\<close>

fun insort_lt :: "('a \<Rightarrow> 'a \<Rightarrow> bool) \<Rightarrow> 'a \<Rightarrow> 'a list \<Rightarrow> 'a list" where
  "insort_lt lt x [] = [x]"
| "insort_lt lt x (y # ys) = (if lt x y then x # y # ys else y # insort_lt lt x ys)"

definition list_sort :: "('a \<Rightarrow> 'a \<Rightarrow> bool) \<Rightarrow> 'a list \<Rightarrow> 'a list" where
  "list_sort lt xs = foldl (\<lambda>ys x. insort_lt lt x ys) [] xs"

definition py_sorted :: "('a \<Rightarrow> 'a \<Rightarrow> bool) \<Rightarrow> bool \<Rightarrow> 'a list \<Rightarrow> 'a list" where
  "py_sorted lt reverse xs = (if reverse then rev (list_sort lt (rev xs)) else list_sort lt xs)"

text \<open>\<open>itertools.groupby(iterable, key)\<close>: the runs of consecutive elements with equal keys.\<close>

function groupby :: "('a \<Rightarrow> 'k) \<Rightarrow> 'a list \<Rightarrow> ('k \<times> 'a list) list" where
  "groupby key [] = []"
| "groupby key (x # xs) =
     (key x, x # takeWhile (\<lambda>y. key y = key x) xs) #
       groupby key (dropWhile (\<lambda>y. key y = key x) xs)"
  by pat_completeness auto
termination
  by (relation "measure (\<lambda>(key, xs). length xs)") (auto simp add: length_dropWhile_le less_Suc_eq_le)

text \<open>\<open>sep.join(xs)\<close>.\<close>

fun join :: "string \<Rightarrow> string list \<Rightarrow> string" where
  "join sep [] = []"
| "join sep [x] = x"
| "join sep (x # y # ys) = x @ sep @ join sep (y # ys)"

subsection \<open>\<open>main\<close>\<close>

text \<open>
  \<open>_annotate(line, annotations, scroll)\<close>. \<open>by_priority[0]\<close> raises \<open>IndexError\<close> on an empty
  list.
\<close>

definition annotate :: "int \<Rightarrow> AnalyzerAnnotation list \<Rightarrow> bool \<Rightarrow> unit eff" where
  "annotate l annotations scroll =
     (let by_priority = py_sorted AnalyzerAnnotation_lt True annotations in
      case by_priority of
        [] \<Rightarrow> ([], Inl (IndexError ''list index out of range''))
      | a # _ \<Rightarrow>
         ([AnnotateLine l (join '',\<newline>'' (map text by_priority)) (style a) True scroll], Inr ()))"

text \<open>
  \<open>_remove_trailing_whitespaces\<close>: \<open>re.sub\<close> of \<open>[ \t]+$\<close> with \<open>re.MULTILINE\<close>, which deletes
  each run of blanks and tabs that ends at a \<open>\n\<close> or at the end of the text.
  \<open>_remove_trailing_lines\<close>: \<open>re.sub\<close> of \<open>\s+\Z\<close>, which deletes the white space at the end
  of the text; the characters of \<open>\s\<close> below code point 256 are those of \<open>isspace\<close>.
\<close>

definition blank :: "char \<Rightarrow> bool" where
  "blank c = (c = CHR '' '' \<or> c = CHR 0x09)"

function remove_trailing_whitespaces :: "string \<Rightarrow> string" where
  "remove_trailing_whitespaces [] = []"
| "remove_trailing_whitespaces (c # cs) =
     (if blank c \<and> (dropWhile blank cs = [] \<or> hd (dropWhile blank cs) = CHR 0x0A)
      then remove_trailing_whitespaces (dropWhile blank cs)
      else c # remove_trailing_whitespaces cs)"
  by pat_completeness auto
termination
  by (relation "measure length") (auto simp add: length_dropWhile_le less_Suc_eq_le)

definition isspace :: "char \<Rightarrow> bool" where
  "isspace c = (c \<in> set [CHR 0x09, CHR 0x0A, CHR 0x0B, CHR 0x0C, CHR 0x0D,
                         CHR 0x1C, CHR 0x1D, CHR 0x1E, CHR 0x1F, CHR 0x20, CHR 0x85, CHR 0xA0])"

definition remove_trailing_lines :: "string \<Rightarrow> string" where
  "remove_trailing_lines txt = rev (dropWhile isspace (rev txt))"

text \<open>\<open>_editor_text()\<close>.\<close>

definition editor_text :: "world \<Rightarrow> string eff" where
  "editor_text w =
     (let txt = get_text w;
          range_end = length txt
      in if config_remove_whitespaces w
         then (let txt' = remove_trailing_lines (remove_trailing_whitespaces txt)
               in ([ReplaceText 0 range_end txt', TabSave], Inr (txt' @ [CHR 0x0A])))
         else ([TabSave], Inr txt))"

text \<open>
  \<open>main\<close>, in three parts. \<open>truthy\<close> is the test \<open>if flake8_options\<close> on a value that is
  \<open>None\<close> or a list. \<open>main_annotations\<close> is the statement
  \<open>if flake8_options: annotations = _flake8_annotations(\<dots>) else: \<dots>\<close>;
  \<open>main_report\<close> is the rest of the function, from \<open>if not annotations\<close> on, with
  \<open>annotate_groups\<close> for the loop \<open>for l, a in groupby(by_line, lambda x: x.line)\<close> and its
  variable \<open>scroll\<close>.
\<close>

fun truthy :: "'a list option \<Rightarrow> bool" where
  "truthy None = False"
| "truthy (Some []) = False"
| "truthy (Some (x # xs)) = True"

definition main_annotations :: "world \<Rightarrow> string \<Rightarrow> string \<Rightarrow> AnalyzerAnnotation list eff" where
  "main_annotations w path txt =
     (let flake8_options = config_flake8 w in
      if truthy flake8_options
      then flake8_annotations w (abspath w path) (the flake8_options)
      else
        then_eff (pep8_annotations w txt (config_ignore_codes w) (config_max_line_length w))
          (\<lambda>annotations.
             then_eff (pyflakes_annotations w path txt)
               (\<lambda>found. ([], Inr (annotations @ found)))))"

fun annotate_groups :: "(int \<times> AnalyzerAnnotation list) list \<Rightarrow> bool \<Rightarrow> unit eff" where
  "annotate_groups [] scroll = ([], Inr ())"
| "annotate_groups ((l, a) # groups) scroll =
     then_eff (annotate l a scroll) (\<lambda>_. annotate_groups groups False)"

definition main_report :: "world \<Rightarrow> AnalyzerAnnotation list \<Rightarrow> unit eff" where
  "main_report w annotations =
     (if annotations = []
      then ((case get_selection w of
               Some selection \<Rightarrow> [SetSelection (fst selection) True]
             | None \<Rightarrow> []) @
            [HudAlert ''No Issues Found'' ''iob:checkmark_32'' (config_hud_alert_delay w)],
            Inr ())
      else
        let by_line = py_sorted (\<lambda>x y. line x < line y) False annotations
        in annotate_groups (groupby line by_line) True)"

definition main :: "world \<Rightarrow> unit eff" where
  "main w =
     (case get_path w of
        None \<Rightarrow> ([], Inr ())
      | Some path \<Rightarrow>
         if path = [] then ([], Inr ())
         else if \<not> endswith path ''.py'' then ([], Inr ())
         else
           then_eff ([ClearAnnotations], Inr ())
             (\<lambda>_. then_eff (editor_text w)
                (\<lambda>txt. then_eff (main_annotations w path txt) (main_report w))))"

subsection \<open>A run for the examples\<close>

text \<open>
  The editor holds \<open>a.py\<close>; pep8 reports one diagnostic on line 2 and one that its base
  report ignores; pyflakes writes a warning for line 2, a warning for line 1 and an error
  for line 2. flake8 raises
  \<open>SystemExit\<close> for the option \<open>--bad\<close>, an instance of \<open>Exception\<close> for the option \<open>--x\<close>,
  and writes a report of two lines otherwise.
\<close>

definition example_world :: world where
  "example_world =
     \<lparr>get_path = Some ''a.py'', get_text = ''x = 1  \<newline>y=2 \<newline>\<newline>'', get_selection = Some (0, 0),
      config_flake8 = None, config_ignore_codes = [''W391'', ''W293''],
      config_max_line_length = 79, config_remove_whitespaces = True,
      config_hud_alert_delay = 1,
      abspath = (\<lambda>p. ''/home/'' @ p), output_file = ''/tmp/blackmamba.flake8.txt'',
      flake8_run = (\<lambda>argv. if ''--bad'' \<in> set argv then Inl (SystemExit ''2'')
                            else if ''--x'' \<in> set argv then Inl (Exception ''boom'')
                            else Inr (Some ''/home/a.py:2:2: E225 missing\<newline>/home/a.py:2:1: W291 trailing'')),
      pep8_check_all = (\<lambda>ls ig m. [\<lparr>line_offset = 0, line_number = 2, offset = 1,
                                     error_text = ''E225 missing whitespace'', check = ''c'',
                                     super_error = Some ''E225''\<rparr>,
                                   \<lparr>line_offset = 0, line_number = 1, offset = 1,
                                     error_text = ''W291 trailing'', check = ''c'',
                                     super_error = None\<rparr>]),
      pyflakes_check = (\<lambda>t p. (p @ '':2: undefined name y\<newline>'' @ p @ '':1: imported but unused\<newline>'',
                                p @ '':2:7: invalid syntax\<newline>''))\<rparr>"

section \<open>Properties\<close>

subsection \<open>The comparison of records\<close>

lemma AnalyzerAnnotation_lt_iff:
  "AnalyzerAnnotation_lt a b \<longleftrightarrow>
     source a = pep8 \<and> source b = pyflakes \<or>
     source a = flake8 \<and> source b \<noteq> flake8 \<or>
     style a = warning \<and> style b = error"
  by (simp add: AnalyzerAnnotation_lt_def)

lemma AnalyzerAnnotation_lt_irrefl: "\<not> AnalyzerAnnotation_lt a a"
  by (simp add: AnalyzerAnnotation_lt_iff)

lemma lt_both_ways_not_asymp:
  "AnalyzerAnnotation_lt a b \<Longrightarrow> AnalyzerAnnotation_lt b a \<Longrightarrow> \<not> asymp AnalyzerAnnotation_lt"
  unfolding asymp_on_def by blast

lemma lt_both_ways_not_transp:
  "AnalyzerAnnotation_lt a b \<Longrightarrow> AnalyzerAnnotation_lt b a \<Longrightarrow> \<not> transp AnalyzerAnnotation_lt"
  unfolding transp_def using AnalyzerAnnotation_lt_irrefl by blast

text \<open>
  Claim C1, as the code has it. Under \<open>__lt__\<close> the sources are ordered
  flake8 below pep8 below pyflakes: a flake8 record is less than every pep8 and every
  pyflakes record, a pep8 record is less than every pyflakes record. A warning record
  is less than every error record. The order of the sources is the reverse of the
  priority flake8 > pep8 > pyflakes; the order of the severities is warning < error.
\<close>

theorem lt_orders_sources_and_severities:
  "(source a = flake8 \<and> source b \<in> {pep8, pyflakes} \<longrightarrow> AnalyzerAnnotation_lt a b) \<and>
   (source a = pep8 \<and> source b = pyflakes \<longrightarrow> AnalyzerAnnotation_lt a b) \<and>
   (style a = warning \<and> style b = error \<longrightarrow> AnalyzerAnnotation_lt a b)"
  by (auto simp add: AnalyzerAnnotation_lt_iff)

theorem lt_orders_sources_and_severities_witness:
  "AnalyzerAnnotation_lt (AnalyzerAnnotation_init 3 ''E501 line too long'' flake8 error)
                         (AnalyzerAnnotation_init 3 ''E225 missing whitespace'' pep8 warning) \<and>
   AnalyzerAnnotation_lt (AnalyzerAnnotation_init 3 ''E225 missing whitespace'' pep8 warning)
                         (AnalyzerAnnotation_init 3 ''undefined name x'' pyflakes warning) \<and>
   AnalyzerAnnotation_lt (AnalyzerAnnotation_init 3 ''undefined name x'' pyflakes warning)
                         (AnalyzerAnnotation_init 3 ''invalid syntax'' pyflakes error)"
  using
    lt_orders_sources_and_severities
      [of "AnalyzerAnnotation_init 3 ''E501 line too long'' flake8 error"
          "AnalyzerAnnotation_init 3 ''E225 missing whitespace'' pep8 warning"]
    lt_orders_sources_and_severities
      [of "AnalyzerAnnotation_init 3 ''E225 missing whitespace'' pep8 warning"
          "AnalyzerAnnotation_init 3 ''undefined name x'' pyflakes warning"]
    lt_orders_sources_and_severities
      [of "AnalyzerAnnotation_init 3 ''undefined name x'' pyflakes warning"
          "AnalyzerAnnotation_init 3 ''invalid syntax'' pyflakes error"]
  by (simp add: AnalyzerAnnotation_init_def)

text \<open>
  Claim C1, as it is stated, fails. Reading "ranks above" through \<open>__lt__\<close> (the lower
  record is the one that is less, as the claim reads "warning below error"), a flake8
  record would have to be greater than a pep8 record. For two warnings on the same line
  the flake8 record is less than the pep8 record, and the pep8 record is not less than
  the flake8 record; likewise the pep8 record is less than the pyflakes record and not
  the other way round.
\<close>

theorem flake8_ranks_below_pep8_counterexample:
  "AnalyzerAnnotation_lt (AnalyzerAnnotation_init 3 ''W291 trailing whitespace'' flake8 warning)
                         (AnalyzerAnnotation_init 3 ''W291 trailing whitespace'' pep8 warning) \<and>
   \<not> AnalyzerAnnotation_lt (AnalyzerAnnotation_init 3 ''W291 trailing whitespace'' pep8 warning)
                           (AnalyzerAnnotation_init 3 ''W291 trailing whitespace'' flake8 warning) \<and>
   AnalyzerAnnotation_lt (AnalyzerAnnotation_init 3 ''W291 trailing whitespace'' pep8 warning)
                         (AnalyzerAnnotation_init 3 ''unused variable'' pyflakes warning) \<and>
   \<not> AnalyzerAnnotation_lt (AnalyzerAnnotation_init 3 ''unused variable'' pyflakes warning)
                           (AnalyzerAnnotation_init 3 ''W291 trailing whitespace'' pep8 warning)"
  by (simp add: AnalyzerAnnotation_lt_def AnalyzerAnnotation_init_def)

text \<open>
  Claim C7. A pep8 record with warning style and a flake8 record with error style are
  each less than the other: the second test of \<open>__lt__\<close> puts the flake8 record below,
  the third puts the warning below. So \<open>__lt__\<close> is not asymmetric; it is irreflexive,
  hence not transitive either, and not a strict partial order.
\<close>

theorem lt_not_asymmetric:
  "AnalyzerAnnotation_lt (AnalyzerAnnotation_init 1 ''E501'' pep8 warning)
                         (AnalyzerAnnotation_init 1 ''E999'' flake8 error) \<and>
   AnalyzerAnnotation_lt (AnalyzerAnnotation_init 1 ''E999'' flake8 error)
                         (AnalyzerAnnotation_init 1 ''E501'' pep8 warning) \<and>
   \<not> asymp AnalyzerAnnotation_lt \<and>
   \<not> transp AnalyzerAnnotation_lt \<and>
   \<not> (irreflp AnalyzerAnnotation_lt \<and> transp AnalyzerAnnotation_lt)"
proof -
  have ab: "AnalyzerAnnotation_lt (AnalyzerAnnotation_init 1 ''E501'' pep8 warning)
                                  (AnalyzerAnnotation_init 1 ''E999'' flake8 error)"
    by (simp add: AnalyzerAnnotation_lt_def AnalyzerAnnotation_init_def)
  have ba: "AnalyzerAnnotation_lt (AnalyzerAnnotation_init 1 ''E999'' flake8 error)
                                  (AnalyzerAnnotation_init 1 ''E501'' pep8 warning)"
    by (simp add: AnalyzerAnnotation_lt_def AnalyzerAnnotation_init_def)
  note not_asym = lt_both_ways_not_asymp [OF ab ba]
  note not_trans = lt_both_ways_not_transp [OF ab ba]
  have not_order: "\<not> (irreflp AnalyzerAnnotation_lt \<and> transp AnalyzerAnnotation_lt)"
  proof
    assume "irreflp AnalyzerAnnotation_lt \<and> transp AnalyzerAnnotation_lt"
    then have "transp AnalyzerAnnotation_lt" ..
    with not_trans show False ..
  qed
  show ?thesis
  proof (intro conjI)
    show "AnalyzerAnnotation_lt (AnalyzerAnnotation_init 1 ''E501'' pep8 warning)
                                (AnalyzerAnnotation_init 1 ''E999'' flake8 error)"
      by (rule ab)
    show "AnalyzerAnnotation_lt (AnalyzerAnnotation_init 1 ''E999'' flake8 error)
                                (AnalyzerAnnotation_init 1 ''E501'' pep8 warning)"
      by (rule ba)
    show "\<not> asymp AnalyzerAnnotation_lt" by (rule not_asym)
    show "\<not> transp AnalyzerAnnotation_lt" by (rule not_trans)
    show "\<not> (irreflp AnalyzerAnnotation_lt \<and> transp AnalyzerAnnotation_lt)" by (rule not_order)
  qed
qed


subsection \<open>The report parsers\<close>

lemma match_digits_nonempty: "match_digits s = Some ([], r) \<Longrightarrow> False"
  by (simp add: match_digits_def split: if_splits)

lemma match_digits_digits: "match_digits s = Some (g, r) \<Longrightarrow> list_all isdigit g"
  by (auto simp add: match_digits_def list_all_iff split: if_splits dest: set_takeWhileD)


lemma py_int_digits: "g \<noteq> [] \<Longrightarrow> list_all isdigit g \<Longrightarrow> py_int g = Inr (decimal g)"
  by (simp add: py_int_def)

lemma LINE_COL_MESSAGE_groups:
  assumes "LINE_COL_MESSAGE_REGEX_fullmatch s = Some groups"
  shows "length groups = 3 \<and> groups ! 0 \<noteq> [] \<and> list_all isdigit (groups ! 0)"
proof -
  from assms obtain g1 r1 g2 r2 g3 where
    "match_digits s = Some (g1, r1)" and "groups = [g1, g2, g3]"
    by (auto simp add: LINE_COL_MESSAGE_REGEX_fullmatch_def split: option.splits if_splits)
  then show ?thesis
    using match_digits_nonempty [of s r1] match_digits_digits [of s g1 r1] by auto
qed

lemma LINE_MESSAGE_groups:
  assumes "LINE_MESSAGE_REGEX_fullmatch s = Some groups"
  shows "length groups = 2 \<and> groups ! 0 \<noteq> [] \<and> list_all isdigit (groups ! 0)"
proof -
  from assms obtain g1 r1 g2 where
    "match_digits s = Some (g1, r1)" and "groups = [g1, g2]"
    by (auto simp add: LINE_MESSAGE_REGEX_fullmatch_def split: option.splits if_splits)
  then show ?thesis
    using match_digits_nonempty [of s r1] match_digits_digits [of s g1 r1] by auto
qed




lemma get_annotations_loop_skip:
  "\<not> accepted path l \<Longrightarrow>
     get_annotations_loop path sty (l # ls) acc = get_annotations_loop path sty ls acc"
  by (auto simp add: accepted_def)

lemma get_annotations_loop_accept:
  assumes "accepted path l"
  shows "\<exists>a. source a = pyflakes \<and> style a = sty \<and>
           (\<forall>ls acc. get_annotations_loop path sty (l # ls) acc =
                      get_annotations_loop path sty ls (acc @ [a]))"
proof (cases "LINE_COL_MESSAGE_REGEX_fullmatch (drop (length path + 1) l)")
  case None
  with assms obtain groups where g: "LINE_MESSAGE_REGEX_fullmatch (drop (length path + 1) l) = Some groups"
    by (auto simp add: accepted_def)
  from LINE_MESSAGE_groups [OF g] have "py_int (groups ! 0) = Inr (decimal (groups ! 0))"
    by (simp add: py_int_digits)
  with assms None g show ?thesis
    by (intro exI [of _ "AnalyzerAnnotation_init (decimal (groups ! 0)) (groups ! 1) pyflakes sty"])
       (simp add: accepted_def AnalyzerAnnotation_init_def LINE_MESSAGE_groups [OF g])
next
  case (Some groups)
  from LINE_COL_MESSAGE_groups [OF Some] have "py_int (groups ! 0) = Inr (decimal (groups ! 0))"
    by (simp add: py_int_digits)
  with assms Some show ?thesis
    by (intro exI [of _ "AnalyzerAnnotation_init (decimal (groups ! 0))
                           (''Col '' @ groups ! 1 @ '': '' @ groups ! 2) pyflakes sty"])
       (simp add: accepted_def AnalyzerAnnotation_init_def LINE_COL_MESSAGE_groups [OF Some])
qed

lemma get_annotations_loop_total:
  "\<exists>r. length r = length (filter (accepted path) ls) \<and>
       (\<forall>a\<in>set r. source a = pyflakes \<and> style a = sty) \<and>
       (\<forall>acc. get_annotations_loop path sty ls acc = Inr (acc @ r))"
proof (induction ls)
  case Nil
  show ?case by simp
next
  case (Cons l ls)
  then obtain r where r: "length r = length (filter (accepted path) ls)"
      "\<forall>a\<in>set r. source a = pyflakes \<and> style a = sty"
      "\<forall>acc. get_annotations_loop path sty ls acc = Inr (acc @ r)"
    by blast
  show ?case
  proof (cases "accepted path l")
    case False
    with r show ?thesis
      by (intro exI [of _ r]) (simp add: get_annotations_loop_skip del: get_annotations_loop.simps)
  next
    case True
    from get_annotations_loop_accept [OF True, of sty] obtain a where a:
      "source a = pyflakes" "style a = sty"
      "\<forall>ls acc. get_annotations_loop path sty (l # ls) acc =
                 get_annotations_loop path sty ls (acc @ [a])"
      by blast
    with r True show ?thesis
      by (intro exI [of _ "a # r"]) (simp del: get_annotations_loop.simps)
  qed
qed


lemma get_style_cases: "get_style m = warning \<or> get_style m = error"
  by (simp add: get_style_def)

lemma parse_flake8_output_loop_skip:
  "\<not> accepted path l \<Longrightarrow>
     parse_flake8_output_loop path (l # ls) acc = parse_flake8_output_loop path ls acc"
  by (auto simp add: accepted_def)

lemma parse_flake8_output_loop_accept:
  assumes "accepted path l"
  shows "\<exists>a. source a = flake8 \<and> (style a = warning \<or> style a = error) \<and>
           (\<forall>ls acc. parse_flake8_output_loop path (l # ls) acc =
                      parse_flake8_output_loop path ls (acc @ [a]))"
proof (cases "LINE_COL_MESSAGE_REGEX_fullmatch (drop (length path + 1) l)")
  case None
  with assms obtain groups where g: "LINE_MESSAGE_REGEX_fullmatch (drop (length path + 1) l) = Some groups"
    by (auto simp add: accepted_def)
  from LINE_MESSAGE_groups [OF g] have "py_int (groups ! 0) = Inr (decimal (groups ! 0))"
    by (simp add: py_int_digits)
  with assms None g show ?thesis
    by (intro exI [of _ "AnalyzerAnnotation_init (decimal (groups ! 0)) (groups ! 1)
                           flake8 (get_style (groups ! 1))"])
       (simp add: accepted_def AnalyzerAnnotation_init_def LINE_MESSAGE_groups [OF g] get_style_cases)
next
  case (Some groups)
  from LINE_COL_MESSAGE_groups [OF Some] have "py_int (groups ! 0) = Inr (decimal (groups ! 0))"
    by (simp add: py_int_digits)
  with assms Some show ?thesis
    by (intro exI [of _ "AnalyzerAnnotation_init (decimal (groups ! 0))
                           (''Col '' @ groups ! 1 @ '': '' @ groups ! 2) flake8 (get_style (groups ! 2))"])
       (simp add: accepted_def AnalyzerAnnotation_init_def LINE_COL_MESSAGE_groups [OF Some] get_style_cases)
qed

lemma parse_flake8_output_loop_total:
  "\<exists>r. length r = length (filter (accepted path) ls) \<and>
       (\<forall>a\<in>set r. source a = flake8 \<and> (style a = warning \<or> style a = error)) \<and>
       (\<forall>acc. parse_flake8_output_loop path ls acc = Inr (acc @ r))"
proof (induction ls)
  case Nil
  show ?case by simp
next
  case (Cons l ls)
  then obtain r where r: "length r = length (filter (accepted path) ls)"
      "\<forall>a\<in>set r. source a = flake8 \<and> (style a = warning \<or> style a = error)"
      "\<forall>acc. parse_flake8_output_loop path ls acc = Inr (acc @ r)"
    by blast
  show ?case
  proof (cases "accepted path l")
    case False
    with r show ?thesis
      by (intro exI [of _ r]) (simp add: parse_flake8_output_loop_skip del: parse_flake8_output_loop.simps)
  next
    case True
    from parse_flake8_output_loop_accept [OF True] obtain a where a:
      "source a = flake8" "style a = warning \<or> style a = error"
      "\<forall>ls acc. parse_flake8_output_loop path (l # ls) acc =
                 parse_flake8_output_loop path ls (acc @ [a])"
      by blast
    with r True show ?thesis
      by (intro exI [of _ "a # r"]) (simp del: parse_flake8_output_loop.simps)
  qed
qed










text \<open>The rules that evaluate the parsers on a concrete report.\<close>

lemmas eval_simps =
  splitlines_def line_boundary_def startswith_def isdigit_def decimal_def py_int_def
  match_digits_def match_rest_def LINE_COL_MESSAGE_REGEX_fullmatch_def
  LINE_MESSAGE_REGEX_fullmatch_def get_annotations_def get_style_def parse_flake8_output_def
  AnalyzerAnnotation_init_def Let_def







subsection \<open>The records of the three parsers\<close>

lemma Pep8AnnotationReport_error_records:
  "list_all (\<lambda>a. source a = pep8 \<and> style a = warning) annotations \<Longrightarrow>
   list_all (\<lambda>a. source a = pep8 \<and> style a = warning) (Pep8AnnotationReport_error annotations c)"
  by (simp add: Pep8AnnotationReport_error_def AnalyzerAnnotation_init_def split: option.splits)

lemma foldl_Pep8AnnotationReport_error_records:
  "list_all (\<lambda>a. source a = pep8 \<and> style a = warning) annotations \<Longrightarrow>
   list_all (\<lambda>a. source a = pep8 \<and> style a = warning)
     (foldl Pep8AnnotationReport_error annotations cs)"
  by (induction cs arbitrary: annotations) (simp_all add: Pep8AnnotationReport_error_records)

lemma pep8_annotations_records:
  "\<exists>annotations. snd (pep8_annotations w txt ignore max_line_length) = Inr annotations \<and>
     list_all (\<lambda>a. source a = pep8 \<and> style a = warning) annotations"
  using foldl_Pep8AnnotationReport_error_records [of "[]"]
  by (simp add: pep8_annotations_def Let_def)

lemma get_annotations_records:
  "\<exists>annotations. get_annotations path stream sty = Inr annotations \<and>
     list_all (\<lambda>a. source a = pyflakes \<and> style a = sty) annotations"
  using get_annotations_loop_total [of path "splitlines stream" sty]
  by (auto simp add: get_annotations_def list_all_iff)

lemma pyflakes_annotations_records:
  "\<exists>annotations. snd (pyflakes_annotations w path txt) = Inr annotations \<and>
     list_all (\<lambda>a. source a = pyflakes \<and> (style a = warning \<or> style a = error)) annotations"
proof -
  obtain ws es where s: "pyflakes_check w txt path = (ws, es)"
    by (cases "pyflakes_check w txt path")
  from get_annotations_records [of path ws warning] obtain wa where
    wa: "get_annotations path ws warning = Inr wa"
        "list_all (\<lambda>a. source a = pyflakes \<and> style a = warning) wa" by blast
  from get_annotations_records [of path es error] obtain ea where
    ea: "get_annotations path es error = Inr ea"
        "list_all (\<lambda>a. source a = pyflakes \<and> style a = error) ea" by blast
  from s wa ea show ?thesis
    by (auto simp add: pyflakes_annotations_def list_all_iff)
qed

lemma parse_flake8_output_records:
  "\<exists>annotations. parse_flake8_output path output_path (Some report) = Inr annotations \<and>
     list_all (\<lambda>a. source a = flake8 \<and> (style a = warning \<or> style a = error)) annotations"
  using parse_flake8_output_loop_total [of path "splitlines report"]
  by (auto simp add: parse_flake8_output_def list_all_iff)

text \<open>
  Claim C9. \<open>_pep8_annotations\<close> returns a list, and every record in it has the style
  \<open>warning\<close>, whatever the text, the options and the calls of the checker are;
  \<open>_Pep8AnnotationReport.error\<close> creates no record of another style.
\<close>

theorem pep8_annotations_are_warnings:
  "(\<exists>annotations. snd (pep8_annotations w txt ignore max_line_length) = Inr annotations \<and>
      list_all (\<lambda>a. style a = warning) annotations) \<and>
   list_all (\<lambda>a. style a = warning)
     (Pep8AnnotationReport_error [] c)"
proof
  from pep8_annotations_records [of w "txt" ignore max_line_length]
  show "\<exists>annotations. snd (pep8_annotations w txt ignore max_line_length) = Inr annotations \<and>
      list_all (\<lambda>a. style a = warning) annotations"
    by (auto simp add: list_all_iff)
  from Pep8AnnotationReport_error_records [of "[]" c]
  show "list_all (\<lambda>a. style a = warning) (Pep8AnnotationReport_error [] c)"
    by (auto simp add: list_all_iff)
qed

theorem pep8_annotations_are_warnings_witness:
  "snd (pep8_annotations example_world ''x = 1\<newline>y=2\<newline>'' [''W391'', ''W293''] 79) =
     Inr [\<lparr>line = 2, text = ''E225 missing whitespace'', style = warning, source = pep8\<rparr>] \<and>
   Pep8AnnotationReport_error []
     \<lparr>line_offset = 0, line_number = 7, offset = 80, error_text = ''E501 line too long'',
      check = ''maximum_line_length'', super_error = Some ''E501''\<rparr> =
     [\<lparr>line = 7, text = ''E501 line too long'', style = warning, source = pep8\<rparr>]"
  using pep8_annotations_are_warnings [of example_world "''x = 1\<newline>y=2\<newline>''" "[''W391'', ''W293'']" 79]
  by (simp add: pep8_annotations_def example_world_def Pep8AnnotationReport_error_def
      AnalyzerAnnotation_init_def Let_def)

text \<open>
  Claim C10. Every record that the three parsers return is the record that the
  constructor builds from its own line, text, source and style: its source is the linter of
  the parser (pep8, pyflakes, flake8) and its style is \<open>warning\<close> or \<open>error\<close>, never the
  third style of the host.
\<close>

theorem parsers_build_common_records:
  "(\<exists>annotations. snd (pep8_annotations w txt ignore max_line_length) = Inr annotations \<and>
      list_all (\<lambda>a. a = AnalyzerAnnotation_init (line a) (text a) (source a) (style a) \<and>
                    source a = pep8 \<and> (style a = warning \<or> style a = error)) annotations) \<and>
   (\<exists>annotations. snd (pyflakes_annotations w path txt) = Inr annotations \<and>
      list_all (\<lambda>a. a = AnalyzerAnnotation_init (line a) (text a) (source a) (style a) \<and>
                    source a = pyflakes \<and> (style a = warning \<or> style a = error)) annotations) \<and>
   (\<exists>annotations. parse_flake8_output path output_path (Some report) = Inr annotations \<and>
      list_all (\<lambda>a. a = AnalyzerAnnotation_init (line a) (text a) (source a) (style a) \<and>
                    source a = flake8 \<and> (style a = warning \<or> style a = error)) annotations)"
proof (intro conjI)
  from pep8_annotations_records [of w "txt" ignore max_line_length]
  show "\<exists>annotations. snd (pep8_annotations w txt ignore max_line_length) = Inr annotations \<and>
      list_all (\<lambda>a. a = AnalyzerAnnotation_init (line a) (text a) (source a) (style a) \<and>
                    source a = pep8 \<and> (style a = warning \<or> style a = error)) annotations"
    by (auto simp add: list_all_iff AnalyzerAnnotation_init_def)
  from pyflakes_annotations_records [of w path "txt"]
  show "\<exists>annotations. snd (pyflakes_annotations w path txt) = Inr annotations \<and>
      list_all (\<lambda>a. a = AnalyzerAnnotation_init (line a) (text a) (source a) (style a) \<and>
                    source a = pyflakes \<and> (style a = warning \<or> style a = error)) annotations"
    by (auto simp add: list_all_iff AnalyzerAnnotation_init_def)
  from parse_flake8_output_records [of path _ report]
  show "\<exists>annotations. parse_flake8_output path output_path (Some report) = Inr annotations \<and>
      list_all (\<lambda>a. a = AnalyzerAnnotation_init (line a) (text a) (source a) (style a) \<and>
                    source a = flake8 \<and> (style a = warning \<or> style a = error)) annotations"
    by (auto simp add: list_all_iff AnalyzerAnnotation_init_def)
qed

theorem parsers_build_common_records_witness:
  "snd (pep8_annotations example_world ''x = 1\<newline>y=2\<newline>'' [''W391'', ''W293''] 79) =
     Inr [AnalyzerAnnotation_init 2 ''E225 missing whitespace'' pep8 warning] \<and>
   snd (pyflakes_annotations example_world ''a.py'' ''x = 1\<newline>y=2\<newline>'') =
     Inr [AnalyzerAnnotation_init 2 ''undefined name y'' pyflakes warning,
          AnalyzerAnnotation_init 1 ''imported but unused'' pyflakes warning,
          AnalyzerAnnotation_init 2 ''Col 7: invalid syntax'' pyflakes error] \<and>
   parse_flake8_output ''a.py'' ''/tmp/blackmamba.flake8.txt''
       (Some ''a.py:1:80: E501 line too long\<newline>a.py:3:1: W391 blank line'') =
     Inr [AnalyzerAnnotation_init 1 ''Col 80: E501 line too long'' flake8 error,
          AnalyzerAnnotation_init 3 ''Col 1: W391 blank line'' flake8 warning]"
  using parsers_build_common_records
    [of example_world "''x = 1\<newline>y=2\<newline>''" "[''W391'', ''W293'']" 79 "''a.py''"
        "''/tmp/blackmamba.flake8.txt''"
        "''a.py:1:80: E501 line too long\<newline>a.py:3:1: W391 blank line''"]
  by (simp add: pep8_annotations_def pyflakes_annotations_def example_world_def
      Pep8AnnotationReport_error_def eval_simps)

subsection \<open>The flake8 loop\<close>





lemma fst_then_eff:
  "fst (then_eff m f) = fst m @ (case snd m of Inl e \<Rightarrow> [] | Inr a \<Rightarrow> fst (f a))"
  by (simp add: then_eff_def split: prod.splits sum.splits)









subsection \<open>The order of the steps of \<open>main\<close>\<close>

lemma editor_text_events:
  "\<exists>edits t. editor_text w = (edits, Inr t) \<and>
     list_all (\<lambda>e. linter_of e = None \<and> \<not> is_AnnotateLine e \<and> e \<noteq> ClearAnnotations) edits"
  by (simp add: editor_text_def Let_def)

lemma annotate_events:
  "list_all (\<lambda>e. linter_of e = None \<and> e \<noteq> ClearAnnotations) (fst (annotate l a scroll))"
  by (simp add: annotate_def Let_def split: list.splits)

lemma annotate_groups_events:
  "list_all (\<lambda>e. linter_of e = None \<and> e \<noteq> ClearAnnotations) (fst (annotate_groups groups scroll))"
proof (induction groups scroll rule: annotate_groups.induct)
  case (1 scroll)
  show ?case by simp
next
  case (2 l a groups scroll)
  with annotate_events [of l a scroll] show ?case
    by (simp add: fst_then_eff split: sum.splits)
qed

lemma main_report_events:
  "list_all (\<lambda>e. linter_of e = None \<and> e \<noteq> ClearAnnotations) (fst (main_report w annotations))"
  using annotate_groups_events
  by (simp add: main_report_def Let_def split: option.splits)

lemma flake8_annotations_loop_events:
  "list_all (\<lambda>e. \<not> is_AnnotateLine e \<and> e \<noteq> ClearAnnotations \<and> linter_of e \<noteq> Some pep8 \<and>
                  linter_of e \<noteq> Some pyflakes)
     (fst (flake8_annotations_loop w path options acc))"
  by (induction options arbitrary: acc) (simp_all add: fst_then_eff split: sum.splits)






lemma main_annotations_events:
  "list_all (\<lambda>e. \<not> is_AnnotateLine e \<and> e \<noteq> ClearAnnotations) (fst (main_annotations w path t))"
proof (cases "truthy (config_flake8 w)")
  case True
  with flake8_annotations_loop_events [of w "abspath w path" "the (config_flake8 w)" "[]"]
  show ?thesis
    by (auto simp add: main_annotations_def flake8_annotations_def list_all_iff)
next
  case False
  obtain ws es where "pyflakes_check w t path = (ws, es)"
    by (cases "pyflakes_check w t path")
  with False show ?thesis
    by (auto simp add: main_annotations_def fst_then_eff pep8_annotations_def pyflakes_annotations_def
        Let_def split: sum.splits)
qed

lemma main_python_file:
  assumes "get_path w = Some path" "path \<noteq> []" "endswith path ''.py''"
  shows "\<exists>edits t lint result.
           editor_text w = (edits, Inr t) \<and>
           main_annotations w path t = (lint, result) \<and>
           fst (main w) =
             [ClearAnnotations] @ edits @ lint @
               (case result of Inl e \<Rightarrow> [] | Inr annotations \<Rightarrow> fst (main_report w annotations))"
proof -
  from editor_text_events [of w] obtain edits t where e: "editor_text w = (edits, Inr t)"
    by blast
  obtain lint result where l: "main_annotations w path t = (lint, result)"
    by (cases "main_annotations w path t")
  from assms e l show ?thesis
    by (simp add: main_def fst_then_eff split: sum.splits)
qed

lemma main_other_file:
  "get_path w = None \<or> get_path w = Some [] \<or> (\<exists>path. get_path w = Some path \<and> \<not> endswith path ''.py'')
     \<Longrightarrow> main w = ([], Inr ())"
  by (auto simp add: main_def)


text \<open>The rules that evaluate \<open>main\<close> in the example run.\<close>

lemmas main_simps =
  main_def main_annotations_def main_report_def editor_text_def annotate_def
  pep8_annotations_def pyflakes_annotations_def Pep8AnnotationReport_error_def
  py_sorted_def list_sort_def AnalyzerAnnotation_lt_def endswith_def blank_def isspace_def
  remove_trailing_lines_def linters_run_def





text \<open>
  Claim C8. In a run of \<open>main\<close> on a Python file the events are, in this order:
  \<open>clear_annotations\<close>; the events of \<open>_editor_text\<close>, none of which invokes a linter or
  places an annotation; the events of the linters, whose reports are parsed into the
  records \<open>annotations\<close> and none of which places an annotation; and the events of the
  rest of \<open>main\<close> computed from these records (the records sorted by line, grouped and
  merged by \<open>_annotate\<close>), none of which invokes a linter. In every run, each
  \<open>annotate_line\<close> comes after \<open>clear_annotations\<close>.
\<close>

theorem main_clears_then_lints_then_annotates:
  "(\<forall>path. get_path w = Some path \<and> path \<noteq> [] \<and> endswith path ''.py'' \<longrightarrow>
      (\<exists>edits t lint result.
         editor_text w = (edits, Inr t) \<and>
         main_annotations w path t = (lint, result) \<and>
         fst (main w) =
           [ClearAnnotations] @ edits @ lint @
             (case result of Inl e \<Rightarrow> [] | Inr annotations \<Rightarrow> fst (main_report w annotations)) \<and>
         list_all (\<lambda>e. linter_of e = None \<and> \<not> is_AnnotateLine e) edits \<and>
         list_all (\<lambda>e. \<not> is_AnnotateLine e) lint \<and>
         (case result of
            Inl e \<Rightarrow> True
          | Inr annotations \<Rightarrow>
              list_all (\<lambda>e. linter_of e = None) (fst (main_report w annotations))))) \<and>
   (\<forall>i < length (fst (main w)).
      is_AnnotateLine (fst (main w) ! i) \<longrightarrow> ClearAnnotations \<in> set (take i (fst (main w))))"
proof (intro conjI allI impI)
  fix path
  assume a: "get_path w = Some path \<and> path \<noteq> [] \<and> endswith path ''.py''"
  then have "get_path w = Some path" "path \<noteq> []" "endswith path ''.py''"
    by simp_all
  from main_python_file [OF this] obtain edits t lint result where m:
    "editor_text w = (edits, Inr t)" "main_annotations w path t = (lint, result)"
    "fst (main w) = [ClearAnnotations] @ edits @ lint @
       (case result of Inl e \<Rightarrow> [] | Inr annotations \<Rightarrow> fst (main_report w annotations))"
    by blast
  have 1: "list_all (\<lambda>e. linter_of e = None \<and> \<not> is_AnnotateLine e) edits"
    using editor_text_events [of w] m(1) by (auto simp add: list_all_iff)
  have 2: "list_all (\<lambda>e. \<not> is_AnnotateLine e) lint"
    using main_annotations_events [of w path t] m(2) by (auto simp add: list_all_iff)
  have 3: "case result of
            Inl e \<Rightarrow> True
          | Inr annotations \<Rightarrow>
              list_all (\<lambda>e. linter_of e = None) (fst (main_report w annotations))"
    using main_report_events [of w] by (auto simp add: list_all_iff split: sum.splits)
  from m 1 2 3 show "\<exists>edits t lint result.
         editor_text w = (edits, Inr t) \<and>
         main_annotations w path t = (lint, result) \<and>
         fst (main w) =
           [ClearAnnotations] @ edits @ lint @
             (case result of Inl e \<Rightarrow> [] | Inr annotations \<Rightarrow> fst (main_report w annotations)) \<and>
         list_all (\<lambda>e. linter_of e = None \<and> \<not> is_AnnotateLine e) edits \<and>
         list_all (\<lambda>e. \<not> is_AnnotateLine e) lint \<and>
         (case result of
            Inl e \<Rightarrow> True
          | Inr annotations \<Rightarrow>
              list_all (\<lambda>e. linter_of e = None) (fst (main_report w annotations)))"
    by blast
next
  fix i
  assume i: "i < length (fst (main w))" and ann: "is_AnnotateLine (fst (main w) ! i)"
  show "ClearAnnotations \<in> set (take i (fst (main w)))"
  proof (cases "\<exists>path. get_path w = Some path \<and> path \<noteq> [] \<and> endswith path ''.py''")
    case True
    then obtain path where "get_path w = Some path" "path \<noteq> []" "endswith path ''.py''"
      by blast
    from main_python_file [OF this] obtain es where es: "fst (main w) = ClearAnnotations # es"
      by auto
    with ann have "i \<noteq> 0"
      by (cases i) simp_all
    with es show ?thesis
      by (cases i) simp_all
  next
    case False
    then have "main w = ([], Inr ())"
      by (intro main_other_file) (cases "get_path w"; auto)
    with i show ?thesis by simp
  qed
qed

lemma main_example_world:
  "fst (main example_world) =
     [ClearAnnotations, ReplaceText 0 14 ''x = 1\<newline>y=2'', TabSave,
      Pep8Check [''x = 1\<newline>'', ''y=2\<newline>''] [''W391'', ''W293''] (Some 79),
      PyflakesCheck ''x = 1\<newline>y=2\<newline>'' ''a.py'',
      AnnotateLine 1 ''imported but unused'' warning True True,
      AnnotateLine 2 ''Col 7: invalid syntax,\<newline>undefined name y,\<newline>E225 missing whitespace''
        error True False]"
  by (simp add: main_simps example_world_def then_eff_def eval_simps)

theorem main_clears_then_lints_then_annotates_witness:
  "fst (main example_world) ! 5 = AnnotateLine 1 ''imported but unused'' warning True True \<and>
   ClearAnnotations \<in> set (take 5 (fst (main example_world)))"
proof -
  from main_clears_then_lints_then_annotates [of example_world]
  have "\<forall>i < length (fst (main example_world)).
      is_AnnotateLine (fst (main example_world) ! i) \<longrightarrow>
      ClearAnnotations \<in> set (take i (fst (main example_world)))"
    by (rule conjunct2)
  then have "5 < length (fst (main example_world)) \<longrightarrow>
      is_AnnotateLine (fst (main example_world) ! 5) \<longrightarrow>
      ClearAnnotations \<in> set (take 5 (fst (main example_world)))"
    by (rule spec)
  moreover have "5 < length (fst (main example_world))"
    by (simp add: main_example_world)
  moreover have "fst (main example_world) ! 5 = AnnotateLine 1 ''imported but unused'' warning True True"
    by (simp add: main_example_world)
  ultimately show ?thesis
    by simp
qed


subsection \<open>Sorting and grouping\<close>

text \<open>
  The insertion sort keeps the elements, and sorts them when \<open><\<close> is the order of a key
  on the elements of the list. On a list sorted by the key, \<open>groupby\<close> returns one group
  for each key, with all the elements of that key.
\<close>

lemma set_insort_lt: "set (insort_lt lt x ys) = insert x (set ys)"
  by (induction ys) auto



lemma sorted_insort_lt:
  fixes k :: "'a \<Rightarrow> 'k::linorder"
  assumes key: "\<forall>a\<in>S. \<forall>b\<in>S. lt a b \<longleftrightarrow> k a < k b" and x: "x \<in> S"
  shows "set ys \<subseteq> S \<Longrightarrow> sorted (map k ys) \<Longrightarrow> sorted (map k (insort_lt lt x ys))"
proof (induction ys)
  case Nil
  show ?case by simp
next
  case (Cons y ys)
  from Cons.prems have y: "y \<in> S" and ys: "set ys \<subseteq> S"
    and le: "\<forall>z\<in>set ys. k y \<le> k z" and s: "sorted (map k ys)"
    by simp_all
  from key x y have lt: "lt x y \<longleftrightarrow> k x < k y"
    by blast
  show ?case
  proof (cases "k x < k y")
    case True
    then have "\<forall>z\<in>set ys. k x \<le> k z"
      using le by (meson less_imp_le order_trans)
    with True lt le s show ?thesis
      by (simp add: less_imp_le)
  next
    case False
    then have "k y \<le> k x" by simp
    moreover have "sorted (map k (insort_lt lt x ys))"
      using ys s by (rule Cons.IH)
    ultimately show ?thesis
      using False lt le by (simp add: set_insort_lt)
  qed
qed

lemma sorted_foldl_insort_lt:
  fixes k :: "'a \<Rightarrow> 'k::linorder"
  assumes key: "\<forall>a\<in>S. \<forall>b\<in>S. lt a b \<longleftrightarrow> k a < k b"
  shows "set xs \<subseteq> S \<Longrightarrow> set acc \<subseteq> S \<Longrightarrow> sorted (map k acc) \<Longrightarrow>
           sorted (map k (foldl (\<lambda>ys x. insort_lt lt x ys) acc xs))"
proof (induction xs arbitrary: acc)
  case Nil
  then show ?case by simp
next
  case (Cons x xs)
  from Cons.prems have x: "x \<in> S" and xs: "set xs \<subseteq> S"
    by simp_all
  have 1: "set (insort_lt lt x acc) \<subseteq> S"
    using x Cons.prems(2) by (simp add: set_insort_lt)
  have 2: "sorted (map k (insort_lt lt x acc))"
    using key x Cons.prems(2,3) by (rule sorted_insort_lt)
  from Cons.IH [OF xs 1 2] show ?case
    by simp
qed

lemma sorted_list_sort:
  fixes k :: "'a \<Rightarrow> 'k::linorder"
  assumes "\<forall>a\<in>set xs. \<forall>b\<in>set xs. lt a b \<longleftrightarrow> k a < k b"
  shows "sorted (map k (list_sort lt xs))"
  unfolding list_sort_def
  by (rule sorted_foldl_insort_lt [OF assms]) simp_all



lemma mset_insort_lt: "mset (insort_lt lt x ys) = add_mset x (mset ys)"
  by (induction ys) simp_all

lemma mset_foldl_insort_lt:
  "mset (foldl (\<lambda>ys x. insort_lt lt x ys) acc xs) = mset acc + mset xs"
  by (induction xs arbitrary: acc) (simp_all add: mset_insort_lt)

lemma mset_list_sort: "mset (list_sort lt xs) = mset xs"
  by (simp add: list_sort_def mset_foldl_insort_lt)



lemma filter_insort_lt:
  fixes k :: "'a \<Rightarrow> 'k::linorder"
  assumes key: "\<forall>a\<in>S. \<forall>b\<in>S. lt a b \<longleftrightarrow> k a < k b" and x: "x \<in> S"
  shows "set ys \<subseteq> S \<Longrightarrow> sorted (map k ys) \<Longrightarrow>
           filter (\<lambda>y. k y = c) (insort_lt lt x ys) =
             filter (\<lambda>y. k y = c) ys @ (if k x = c then [x] else [])"
proof (induction ys)
  case Nil
  show ?case by simp
next
  case (Cons y ys)
  from Cons.prems have y: "y \<in> S" and ys: "set ys \<subseteq> S"
    and le: "\<forall>z\<in>set ys. k y \<le> k z" and s: "sorted (map k ys)"
    by simp_all
  from key x y have lt: "lt x y \<longleftrightarrow> k x < k y"
    by blast
  show ?case
  proof (cases "k x < k y")
    case True
    show ?thesis
    proof (cases "k x = c")
      case c: True
      with True le have "\<forall>z\<in>set (y # ys). k z \<noteq> c"
        by fastforce
      then have "filter (\<lambda>y. k y = c) (y # ys) = []"
        by (simp only: filter_empty_conv)
      with True lt c show ?thesis by simp
    next
      case False
      with True lt show ?thesis by simp
    qed
  next
    case False
    with lt Cons.IH [OF ys s] show ?thesis by simp
  qed
qed

lemma filter_foldl_insort_lt:
  fixes k :: "'a \<Rightarrow> 'k::linorder"
  assumes key: "\<forall>a\<in>S. \<forall>b\<in>S. lt a b \<longleftrightarrow> k a < k b"
  shows "set xs \<subseteq> S \<Longrightarrow> set acc \<subseteq> S \<Longrightarrow> sorted (map k acc) \<Longrightarrow>
           filter (\<lambda>y. k y = c) (foldl (\<lambda>ys x. insort_lt lt x ys) acc xs) =
             filter (\<lambda>y. k y = c) acc @ filter (\<lambda>y. k y = c) xs"
proof (induction xs arbitrary: acc)
  case Nil
  then show ?case by simp
next
  case (Cons x xs)
  from Cons.prems have x: "x \<in> S" and xs: "set xs \<subseteq> S"
    by simp_all
  have 1: "set (insort_lt lt x acc) \<subseteq> S"
    using x Cons.prems(2) by (simp add: set_insort_lt)
  have 2: "sorted (map k (insort_lt lt x acc))"
    using key x Cons.prems(2,3) by (rule sorted_insort_lt)
  from Cons.IH [OF xs 1 2] filter_insort_lt [OF key x Cons.prems(2,3), of c]
  show ?case by simp
qed

lemma list_sort_stable:
  fixes k :: "'a \<Rightarrow> 'k::linorder"
  assumes "\<forall>a\<in>set xs. \<forall>b\<in>set xs. lt a b \<longleftrightarrow> k a < k b"
  shows "filter (\<lambda>y. k y = c) (list_sort lt xs) = filter (\<lambda>y. k y = c) xs"
  unfolding list_sort_def
  using filter_foldl_insort_lt [OF assms, of xs "[]" c] by simp

lemma list_sort_eq_sort_key:
  fixes k :: "'a \<Rightarrow> 'k::linorder"
  assumes "\<forall>a\<in>set xs. \<forall>b\<in>set xs. lt a b \<longleftrightarrow> k a < k b"
  shows "list_sort lt xs = sort_key k xs"
proof (rule properties_for_sort_key [symmetric])
  show "mset (list_sort lt xs) = mset xs"
    by (rule mset_list_sort)
  show "sorted (map k (list_sort lt xs))"
    using assms by (rule sorted_list_sort)
  fix c
  assume "c \<in> set (list_sort lt xs)"
  have "filter (\<lambda>y. k y = k c) (list_sort lt xs) = filter (\<lambda>y. k y = k c) xs"
    using assms by (rule list_sort_stable)
  then show "filter (\<lambda>x. k c = k x) (list_sort lt xs) = filter (\<lambda>x. k c = k x) xs"
    by (simp add: eq_commute [of "k c"])
qed

lemma py_sorted_is_stable_sort:
  fixes k :: "'a \<Rightarrow> 'k::linorder"
  assumes "\<forall>a\<in>set xs. \<forall>b\<in>set xs. lt a b \<longleftrightarrow> k a < k b"
  shows "py_sorted lt reverse xs = (if reverse then rev (sort_key k (rev xs)) else sort_key k xs)"
proof -
  have "\<forall>a\<in>set (rev xs). \<forall>b\<in>set (rev xs). lt a b \<longleftrightarrow> k a < k b"
    using assms by simp
  then have "list_sort lt (rev xs) = sort_key k (rev xs)"
    by (rule list_sort_eq_sort_key)
  moreover have "list_sort lt xs = sort_key k xs"
    using assms by (rule list_sort_eq_sort_key)
  ultimately show ?thesis
    by (simp add: py_sorted_def)
qed






subsection \<open>One annotation for each line\<close>










end
